theory Spec2Isabelle
  imports Main
begin

section \<open>The identity and session core of unsugar-io-api\<close>

text \<open>
  A shallow embedding of \<^verbatim>\<open>src/models/User.js\<close>, \<^verbatim>\<open>src/utils/jwt.js\<close>,
  \<^verbatim>\<open>src/middleware/auth.js\<close>, \<^verbatim>\<open>src/middleware/errorHandler.js\<close>,
  \<^verbatim>\<open>src/config/passport.js\<close> and \<^verbatim>\<open>src/routes/auth.js\<close>.

  Conventions.
  \<^item> A \<^verbatim>\<open>Date\<close> is its \<^verbatim>\<open>getTime()\<close>: milliseconds since the epoch, an \<open>int\<close>.
  \<^item> A schema path that may be \<^verbatim>\<open>undefined\<close> is an \<open>option\<close>.
  \<^item> A method that mutates \<^verbatim>\<open>this\<close> takes the document and returns the new one.
  \<^item> \<^verbatim>\<open>Date.now()\<close> is an argument (\<open>now\<close>).
  \<^item> A \<^verbatim>\<open>throw\<close> is the \<open>Inl\<close> of a sum.
\<close>

subsection \<open>JSON Web Tokens (the jsonwebtoken library)\<close>

text \<open>
  The claims of the two kinds of token that \<^verbatim>\<open>utils/jwt.js\<close> signs:
  \<^verbatim>\<open>{ userId, role, type: 'access' }\<close> and \<^verbatim>\<open>{ userId, type: 'refresh' }\<close>, to which
  \<^verbatim>\<open>jwt.sign\<close> adds \<^verbatim>\<open>iat\<close> and \<^verbatim>\<open>exp\<close> (both in seconds).
\<close>

record payload =
  userId :: string
  p_role :: "string option"
  p_type :: string
  iat :: int
  exp :: int

text \<open>
  A token string. The compact serialisation of a JWT is determined by its claims and by
  the secret of its HMAC signature, so a signed token is kept as that pair; every other
  string a client may send is \<open>Opaque\<close>.
\<close>

datatype jwt = Signed payload string | Opaque string

subsection \<open>The User document (models/User.js, userSchema)\<close>

record oauth_provider =
  provider :: string
  providerId :: string
  op_email :: "string option"
  displayName :: "string option"
  op_avatar :: "string option"
  op_accessToken :: "string option"
  op_refreshToken :: "string option"
  connectedAt :: int

record refresh_token =
  token :: jwt
  createdAt :: int
  expiresAt :: int
  device :: "string option"
  ipAddress :: "string option"

record user =
  uid :: string
  email :: string
  name :: string
  avatar :: "string option"
  password :: "string option"
  googleId :: "string option"
  githubId :: "string option"
  appleId :: "string option"
  oauthProviders :: "oauth_provider list"
  role :: string
  isVerified :: bool
  isActive :: bool
  refreshTokens :: "refresh_token list"
  lastLogin :: "int option"
  passwordChangedAt :: "int option"

text \<open>
  \<open>uid\<close> is \<^verbatim>\<open>_id\<close>. The bookkeeping paths of mongoose (\<^verbatim>\<open>createdAt\<close>, \<^verbatim>\<open>updatedAt\<close> of
  the \<^verbatim>\<open>timestamps\<close> option, the version key \<^verbatim>\<open>__v\<close>, the \<^verbatim>\<open>_id\<close> of a subdocument) are
  read by no function below and are left out.
\<close>

text \<open>JavaScript truthiness of an optional string: \<^verbatim>\<open>undefined\<close>, \<^verbatim>\<open>null\<close> and \<^verbatim>\<open>''\<close> are falsy.\<close>

definition truthy :: "string option \<Rightarrow> bool" where
  "truthy x = (case x of None \<Rightarrow> False | Some s \<Rightarrow> s \<noteq> [])"

subsection \<open>changedPasswordAfter\<close>

text \<open>
  \<^verbatim>\<open>parseInt(ms / 1000, 10)\<close>: the quotient, truncated towards zero (the digits before
  the decimal point of the number's decimal string).
\<close>

definition parseInt_seconds :: "int \<Rightarrow> int" where
  "parseInt_seconds ms = (if ms < 0 then - ((- ms) div 1000) else ms div 1000)"

definition changedPasswordAfter :: "user \<Rightarrow> int \<Rightarrow> bool" where
  "changedPasswordAfter u JWTTimestamp =
     (case passwordChangedAt u of
        Some changed \<Rightarrow> JWTTimestamp < parseInt_seconds changed
      | None \<Rightarrow> False)"

subsection \<open>linkOAuthProvider and unlinkOAuthProvider\<close>

text \<open>The \<^verbatim>\<open>profile\<close> object the passport strategies hand to \<^verbatim>\<open>linkOAuthProvider\<close>.\<close>

record link_profile =
  lp_id :: string
  lp_email :: "string option"
  lp_displayName :: "string option"
  lp_avatar :: "string option"
  lp_emailVerified :: bool

text \<open>
  \<^verbatim>\<open>existingProvider.providerId = profile.id; ...\<close> on the entry that
  \<^verbatim>\<open>this.oauthProviders.find(p => p.provider === provider)\<close> returns: the first entry
  of that provider.
\<close>

fun update_first :: "string \<Rightarrow> link_profile \<Rightarrow> oauth_provider list \<Rightarrow> oauth_provider list" where
  "update_first prov profile [] = []"
| "update_first prov profile (p # ps) =
     (if provider p = prov
      then p\<lparr>providerId := lp_id profile, op_email := lp_email profile,
             displayName := lp_displayName profile, op_avatar := lp_avatar profile\<rparr> # ps
      else p # update_first prov profile ps)"

definition set_provider_id :: "string \<Rightarrow> string option \<Rightarrow> user \<Rightarrow> user" where
  "set_provider_id prov v u =
     (let u1 = (if prov = ''google'' then u\<lparr>googleId := v\<rparr> else u);
          u2 = (if prov = ''github'' then u1\<lparr>githubId := v\<rparr> else u1)
      in if prov = ''apple'' then u2\<lparr>appleId := v\<rparr> else u2)"

definition linkOAuthProvider :: "int \<Rightarrow> string \<Rightarrow> link_profile \<Rightarrow> user \<Rightarrow> user" where
  "linkOAuthProvider now prov profile u =
     (let u1 =
        (case find (\<lambda>p. provider p = prov) (oauthProviders u) of
           Some existingProvider \<Rightarrow>
             u\<lparr>oauthProviders := update_first prov profile (oauthProviders u)\<rparr>
         | None \<Rightarrow>
             set_provider_id prov (Some (lp_id profile))
               (u\<lparr>oauthProviders := oauthProviders u @
                  [\<lparr>provider = prov, providerId = lp_id profile, op_email = lp_email profile,
                    displayName = lp_displayName profile, op_avatar = lp_avatar profile,
                    op_accessToken = None, op_refreshToken = None, connectedAt = now\<rparr>]\<rparr>));
          u2 = (if \<not> truthy (avatar u1) \<and> truthy (lp_avatar profile)
                then u1\<lparr>avatar := lp_avatar profile\<rparr> else u1)
      in if lp_emailVerified profile then u2\<lparr>isVerified := True\<rparr> else u2)"

definition unlinkOAuthProvider :: "string \<Rightarrow> user \<Rightarrow> user" where
  "unlinkOAuthProvider prov u =
     set_provider_id prov None
       (u\<lparr>oauthProviders := filter (\<lambda>p. provider p \<noteq> prov) (oauthProviders u)\<rparr>)"

subsection \<open>Refresh tokens of a User\<close>

definition addRefreshToken ::
  "int \<Rightarrow> jwt \<Rightarrow> int \<Rightarrow> string option \<Rightarrow> string option \<Rightarrow> user \<Rightarrow> user" where
  "addRefreshToken now tok expiresIn dev ip u =
     (let pushed = refreshTokens u @
            [\<lparr>token = tok, createdAt = now, expiresAt = now + expiresIn * 1000,
              device = dev, ipAddress = ip\<rparr>]
      in u\<lparr>refreshTokens :=
             (if length pushed > 5 then drop (length pushed - 5) pushed else pushed)\<rparr>)"

definition removeRefreshToken :: "jwt \<Rightarrow> user \<Rightarrow> user" where
  "removeRefreshToken tok u =
     u\<lparr>refreshTokens := filter (\<lambda>rt. token rt \<noteq> tok) (refreshTokens u)\<rparr>"

definition cleanupExpiredTokens :: "int \<Rightarrow> user \<Rightarrow> user" where
  "cleanupExpiredTokens now u =
     u\<lparr>refreshTokens := filter (\<lambda>rt. expiresAt rt > now) (refreshTokens u)\<rparr>"

text \<open>
  The methods of the schema that write a document, as one type of operation; \<open>apply_ops\<close>
  runs a sequence of them.
\<close>

datatype user_op =
    AddRefreshToken int jwt int "string option" "string option"
  | RemoveRefreshToken jwt
  | CleanupExpiredTokens int
  | LinkOAuthProvider int string link_profile
  | UnlinkOAuthProvider string

fun apply_op :: "user_op \<Rightarrow> user \<Rightarrow> user" where
  "apply_op (AddRefreshToken now tok expiresIn dev ip) u = addRefreshToken now tok expiresIn dev ip u"
| "apply_op (RemoveRefreshToken tok) u = removeRefreshToken tok u"
| "apply_op (CleanupExpiredTokens now) u = cleanupExpiredTokens now u"
| "apply_op (LinkOAuthProvider now prov profile) u = linkOAuthProvider now prov profile u"
| "apply_op (UnlinkOAuthProvider prov) u = unlinkOAuthProvider prov u"

fun apply_ops :: "user_op list \<Rightarrow> user \<Rightarrow> user" where
  "apply_ops [] u = u"
| "apply_ops (x # xs) u = apply_ops xs (apply_op x u)"

subsection \<open>toJSON\<close>

text \<open>
  The values of the plain object that \<^verbatim>\<open>toObject()\<close> returns and \<^verbatim>\<open>res.json\<close> serialises.
  \<open>VTok\<close> is the string of a token, \<open>VDate\<close> a \<^verbatim>\<open>Date\<close>; an object is the list of its
  own properties in insertion order.
\<close>

datatype jsval =
    VUndefined
  | VNull
  | VBool bool
  | VNum int
  | VStr string
  | VTok jwt
  | VDate int
  | VArr "jsval list"
  | VObj "(string \<times> jsval) list"

text \<open>\<^verbatim>\<open>obj[k]\<close>, \<^verbatim>\<open>delete obj[k]\<close> and \<^verbatim>\<open>obj[k] = v\<close>.\<close>

fun get_prop :: "string \<Rightarrow> jsval \<Rightarrow> jsval" where
  "get_prop k (VObj kvs) = (case map_of kvs k of Some v \<Rightarrow> v | None \<Rightarrow> VUndefined)"
| "get_prop k v = VUndefined"

fun delete_prop :: "string \<Rightarrow> jsval \<Rightarrow> jsval" where
  "delete_prop k (VObj kvs) = VObj (filter (\<lambda>kv. fst kv \<noteq> k) kvs)"
| "delete_prop k v = v"

fun set_prop :: "string \<Rightarrow> jsval \<Rightarrow> jsval \<Rightarrow> jsval" where
  "set_prop k v (VObj kvs) =
     (if k \<in> set (map fst kvs)
      then VObj (map (\<lambda>kv. if fst kv = k then (k, v) else kv) kvs)
      else VObj (kvs @ [(k, v)]))"
| "set_prop k v w = w"

fun own_keys :: "jsval \<Rightarrow> string list" where
  "own_keys (VObj kvs) = map fst kvs"
| "own_keys v = []"

fun js_truthy :: "jsval \<Rightarrow> bool" where
  "js_truthy VUndefined = False"
| "js_truthy VNull = False"
| "js_truthy (VBool b) = b"
| "js_truthy (VNum n) = (n \<noteq> 0)"
| "js_truthy (VStr s) = (s \<noteq> [])"
| "js_truthy (VTok t) = (t \<noteq> Opaque [])"
| "js_truthy (VDate d) = True"
| "js_truthy (VArr xs) = True"
| "js_truthy (VObj kvs) = True"

fun elements :: "jsval \<Rightarrow> jsval list" where
  "elements (VArr xs) = xs"
| "elements v = []"

text \<open>A path whose value is \<^verbatim>\<open>undefined\<close> is no property of the plain object.\<close>

definition opt_prop :: "string \<Rightarrow> ('a \<Rightarrow> jsval) \<Rightarrow> 'a option \<Rightarrow> (string \<times> jsval) list" where
  "opt_prop k f x = (case x of None \<Rightarrow> [] | Some v \<Rightarrow> [(k, f v)])"

definition provider_object :: "oauth_provider \<Rightarrow> jsval" where
  "provider_object p =
     VObj ([(''provider'', VStr (provider p)), (''providerId'', VStr (providerId p))]
           @ opt_prop ''email'' VStr (op_email p)
           @ opt_prop ''displayName'' VStr (displayName p)
           @ opt_prop ''avatar'' VStr (op_avatar p)
           @ opt_prop ''accessToken'' VStr (op_accessToken p)
           @ opt_prop ''refreshToken'' VStr (op_refreshToken p)
           @ [(''connectedAt'', VDate (connectedAt p))])"

definition refresh_token_object :: "refresh_token \<Rightarrow> jsval" where
  "refresh_token_object rt =
     VObj ([(''token'', VTok (token rt)), (''createdAt'', VDate (createdAt rt)),
            (''expiresAt'', VDate (expiresAt rt))]
           @ opt_prop ''device'' VStr (device rt)
           @ opt_prop ''ipAddress'' VStr (ipAddress rt))"

text \<open>\<^verbatim>\<open>avatar\<close> has the schema default \<^verbatim>\<open>null\<close>, so it is always a property.\<close>

definition toObject :: "user \<Rightarrow> jsval" where
  "toObject u =
     VObj ([(''_id'', VStr (uid u)), (''email'', VStr (email u)), (''name'', VStr (name u)),
            (''avatar'', (case avatar u of None \<Rightarrow> VNull | Some a \<Rightarrow> VStr a))]
           @ opt_prop ''password'' VStr (password u)
           @ opt_prop ''googleId'' VStr (googleId u)
           @ opt_prop ''githubId'' VStr (githubId u)
           @ opt_prop ''appleId'' VStr (appleId u)
           @ [(''oauthProviders'', VArr (map provider_object (oauthProviders u))),
              (''role'', VStr (role u)),
              (''isVerified'', VBool (isVerified u)),
              (''isActive'', VBool (isActive u)),
              (''refreshTokens'', VArr (map refresh_token_object (refreshTokens u)))]
           @ opt_prop ''lastLogin'' VDate (lastLogin u)
           @ opt_prop ''passwordChangedAt'' VDate (passwordChangedAt u))"

definition toJSON :: "user \<Rightarrow> jsval" where
  "toJSON u =
     (let user = delete_prop ''__v'' (delete_prop ''refreshTokens''
                   (delete_prop ''password'' (toObject u)))
      in if js_truthy (get_prop ''oauthProviders'' user)
         then set_prop ''oauthProviders''
                (VArr (map (\<lambda>provider. VObj [(''provider'', get_prop ''provider'' provider),
                                              (''connectedAt'', get_prop ''connectedAt'' provider)])
                           (elements (get_prop ''oauthProviders'' user))))
                user
         else user)"

subsection \<open>The environment of a request\<close>

text \<open>
  What a handler reads besides its arguments: the two signing secrets and \<^verbatim>\<open>NODE_ENV\<close> of
  \<^verbatim>\<open>process.env\<close>, the clock, the \<^verbatim>\<open>ObjectId\<close> that mongoose gives the next document,
  bcrypt, and whether the database rejects a write (\<open>createError\<close>: \<^verbatim>\<open>User.create\<close>
  rejects before anything is inserted; \<open>saveError\<close>: \<^verbatim>\<open>document.save()\<close> rejects).
\<close>

datatype code_value = CodeStr string | CodeNum int

record js_error =
  e_name :: string
  e_message :: string
  e_stack :: string
  e_statusCode :: "nat option"
  e_code :: "code_value option"
  e_errors :: "(string \<times> string) list option"
  e_keyValue :: "(string \<times> string) list"
  e_path :: string
  e_value :: string

record env =
  ACCESS_TOKEN_SECRET :: string
  REFRESH_TOKEN_SECRET :: string
  NODE_ENV :: string
  now :: int
  newId :: string
  bcrypt_hash :: "string \<Rightarrow> string"
  bcrypt_compare :: "string \<Rightarrow> string \<Rightarrow> bool"
  createError :: "js_error option"
  saveError :: "js_error option"

subsection \<open>utils/jwt.js\<close>

datatype jwt_error = JsonWebTokenError | TokenExpiredError

text \<open>
  \<^verbatim>\<open>jwt.sign(payload, secret, { expiresIn })\<close> stamps \<^verbatim>\<open>iat = Math.floor(Date.now() / 1000)\<close>
  and \<^verbatim>\<open>exp = iat + expiresIn\<close>. \<^verbatim>\<open>jwt.verify(token, secret)\<close> throws
  \<^verbatim>\<open>JsonWebTokenError\<close> for a string that is no token or whose signature is not the
  secret's, \<^verbatim>\<open>TokenExpiredError\<close> once the clock (in seconds) has reached \<^verbatim>\<open>exp\<close>, and
  returns the claims otherwise.
\<close>

definition jwt_sign :: "int \<Rightarrow> string \<Rightarrow> string option \<Rightarrow> string \<Rightarrow> string \<Rightarrow> int \<Rightarrow> jwt" where
  "jwt_sign clock uid' role' type' secret expiresIn =
     Signed \<lparr>userId = uid', p_role = role', p_type = type',
             iat = clock div 1000, exp = clock div 1000 + expiresIn\<rparr> secret"

definition jwt_verify :: "int \<Rightarrow> jwt \<Rightarrow> string \<Rightarrow> jwt_error + payload" where
  "jwt_verify clock t secret =
     (case t of
        Opaque s \<Rightarrow> Inl JsonWebTokenError
      | Signed p s \<Rightarrow>
          if s \<noteq> secret then Inl JsonWebTokenError
          else if clock div 1000 \<ge> exp p then Inl TokenExpiredError
          else Inr p)"

text \<open>\<^verbatim>\<open>new Error(message)\<close>.\<close>

definition Error :: "string \<Rightarrow> js_error" where
  "Error msg = \<lparr>e_name = ''Error'', e_message = msg, e_stack = ''Error: '' @ msg,
                e_statusCode = None, e_code = None, e_errors = None, e_keyValue = [],
                e_path = [], e_value = []\<rparr>"

definition ACCESS_TOKEN_EXPIRY :: int where
  "ACCESS_TOKEN_EXPIRY = 15 * 60"

definition REFRESH_TOKEN_EXPIRY :: int where
  "REFRESH_TOKEN_EXPIRY = 7 * 24 * 60 * 60"

definition generateAccessToken :: "env \<Rightarrow> string \<Rightarrow> string \<Rightarrow> jwt" where
  "generateAccessToken e userId' role' =
     jwt_sign (now e) userId' (Some role') ''access'' (ACCESS_TOKEN_SECRET e) ACCESS_TOKEN_EXPIRY"

definition generateRefreshToken :: "env \<Rightarrow> string \<Rightarrow> jwt" where
  "generateRefreshToken e userId' =
     jwt_sign (now e) userId' None ''refresh'' (REFRESH_TOKEN_SECRET e) REFRESH_TOKEN_EXPIRY"

text \<open>
  Both the error of \<^verbatim>\<open>jwt.verify\<close> and the \<^verbatim>\<open>Invalid token type\<close> error thrown inside the
  \<^verbatim>\<open>try\<close> end in the \<^verbatim>\<open>catch\<close>, which throws a fresh \<^verbatim>\<open>Error\<close>.
\<close>

definition verifyAccessToken :: "env \<Rightarrow> jwt \<Rightarrow> js_error + payload" where
  "verifyAccessToken e t =
     (case jwt_verify (now e) t (ACCESS_TOKEN_SECRET e) of
        Inl err \<Rightarrow> Inl (Error ''Invalid or expired access token'')
      | Inr decoded \<Rightarrow>
          if p_type decoded \<noteq> ''access'' then Inl (Error ''Invalid or expired access token'')
          else Inr decoded)"

definition verifyRefreshToken :: "env \<Rightarrow> jwt \<Rightarrow> js_error + payload" where
  "verifyRefreshToken e t =
     (case jwt_verify (now e) t (REFRESH_TOKEN_SECRET e) of
        Inl err \<Rightarrow> Inl (Error ''Invalid or expired refresh token'')
      | Inr decoded \<Rightarrow>
          if p_type decoded \<noteq> ''refresh'' then Inl (Error ''Invalid or expired refresh token'')
          else Inr decoded)"

subsection \<open>middleware/errorHandler.js\<close>

text \<open>
  The classes set \<^verbatim>\<open>statusCode\<close> and \<^verbatim>\<open>code\<close>; none sets \<^verbatim>\<open>name\<close>, which stays the
  \<^verbatim>\<open>'Error'\<close> of \<^verbatim>\<open>Error.prototype\<close>.
\<close>

definition AppError :: "string \<Rightarrow> nat \<Rightarrow> string \<Rightarrow> js_error" where
  "AppError msg statusCode code' =
     (Error msg)\<lparr>e_statusCode := Some statusCode, e_code := Some (CodeStr code')\<rparr>"

definition ValidationError :: "string \<Rightarrow> (string \<times> string) list \<Rightarrow> js_error" where
  "ValidationError msg errors = (AppError msg 400 ''VALIDATION_ERROR'')\<lparr>e_errors := Some errors\<rparr>"

definition AuthenticationError :: "string \<Rightarrow> js_error" where
  "AuthenticationError msg = AppError msg 401 ''AUTHENTICATION_ERROR''"

definition ConflictError :: "string \<Rightarrow> js_error" where
  "ConflictError msg = AppError msg 409 ''CONFLICT_ERROR''"

definition handleMongooseValidationError :: "js_error \<Rightarrow> js_error" where
  "handleMongooseValidationError err =
     ValidationError ''Validation failed'' (case e_errors err of None \<Rightarrow> [] | Some es \<Rightarrow> es)"

definition handleDuplicateKeyError :: "js_error \<Rightarrow> js_error" where
  "handleDuplicateKeyError err =
     ConflictError ((case e_keyValue err of [] \<Rightarrow> ''undefined'' | kv # _ \<Rightarrow> fst kv)
                    @ '' already exists'')"

definition handleCastError :: "js_error \<Rightarrow> js_error" where
  "handleCastError err = ValidationError (''Invalid '' @ e_path err @ '': '' @ e_value err) []"

definition handleJWTError :: js_error where
  "handleJWTError = AuthenticationError ''Invalid token''"

definition handleJWTExpiredError :: js_error where
  "handleJWTExpiredError = AuthenticationError ''Token expired''"

record http_response =
  status :: nat
  body :: jsval

definition code_jsval :: "code_value \<Rightarrow> jsval" where
  "code_jsval c = (case c of CodeStr s \<Rightarrow> VStr s | CodeNum n \<Rightarrow> VNum n)"

definition error_object :: "string \<times> string \<Rightarrow> jsval" where
  "error_object fm = VObj [(''field'', VStr (fst fm)), (''message'', VStr (snd fm))]"

text \<open>
  \<^verbatim>\<open>error.statusCode || 500\<close>, \<^verbatim>\<open>error.message || 'Internal Server Error'\<close> and
  \<^verbatim>\<open>error.code || 'INTERNAL_ERROR'\<close> take the default for every falsy value.
\<close>

definition errorHandler :: "env \<Rightarrow> js_error \<Rightarrow> http_response" where
  "errorHandler e err =
     (let error0 = err;
          error1 = (if e_name err = ''ValidationError''
                    then handleMongooseValidationError err else error0);
          error2 = (if e_code err = Some (CodeNum 11000)
                    then handleDuplicateKeyError err else error1);
          error3 = (if e_name err = ''CastError'' then handleCastError err else error2);
          error4 = (if e_name err = ''JsonWebTokenError'' then handleJWTError else error3);
          error = (if e_name err = ''TokenExpiredError'' then handleJWTExpiredError else error4);
          statusCode = (case e_statusCode error of
                          None \<Rightarrow> 500 | Some n \<Rightarrow> if n = 0 then 500 else n);
          message = (if e_message error = [] then ''Internal Server Error'' else e_message error);
          code = (case e_code error of
                    None \<Rightarrow> VStr ''INTERNAL_ERROR''
                  | Some c \<Rightarrow> if c = CodeStr [] \<or> c = CodeNum 0
                              then VStr ''INTERNAL_ERROR'' else code_jsval c)
      in \<lparr>status = statusCode,
          body = VObj ([(''success'', VBool False), (''error'', VStr message), (''code'', code)]
                       @ opt_prop ''errors'' (\<lambda>es. VArr (map error_object es)) (e_errors error)
                       @ (if NODE_ENV e = ''development''
                          then [(''stack'', VStr (e_stack err))] else []))\<rparr>)"

subsection \<open>The users collection\<close>

text \<open>
  The collection is the list of its documents in insertion order. An \<^verbatim>\<open>ObjectId\<close> is a
  string, \<^verbatim>\<open>findOne\<close> returns the first match, and \<^verbatim>\<open>save\<close> writes the document over
  the stored one of the same \<^verbatim>\<open>_id\<close>.
\<close>

definition findById :: "string \<Rightarrow> user list \<Rightarrow> user option" where
  "findById i store = find (\<lambda>u. uid u = i) store"

definition findOneByEmail :: "string \<Rightarrow> user list \<Rightarrow> user option" where
  "findOneByEmail em store = find (\<lambda>u. email u = em) store"

definition findOneByGithubId :: "string \<Rightarrow> user list \<Rightarrow> user option" where
  "findOneByGithubId i store = find (\<lambda>u. githubId u = Some i) store"

definition save :: "env \<Rightarrow> user \<Rightarrow> user list \<Rightarrow> js_error + user list" where
  "save e doc store =
     (case saveError e of
        Some err \<Rightarrow> Inl err
      | None \<Rightarrow> Inr (map (\<lambda>v. if uid v = uid doc then doc else v) store))"

text \<open>
  \<^verbatim>\<open>User.create(fields)\<close>: the schema's defaults, the \<^verbatim>\<open>required\<close> and \<^verbatim>\<open>minlength\<close>
  validators, the \<^verbatim>\<open>pre('save')\<close> hook that stores the bcrypt hash of a password, and
  the unique index on \<^verbatim>\<open>email\<close>. The document is inserted only when all of them pass.
  An email or a name is the string that the schema's \<^verbatim>\<open>lowercase\<close> and \<^verbatim>\<open>trim\<close> setters
  leave.
\<close>

definition new_document :: "string \<Rightarrow> string \<Rightarrow> string option \<Rightarrow> user" where
  "new_document email' name' password' =
     \<lparr>uid = [], email = email', name = name', avatar = None, password = password',
      googleId = None, githubId = None, appleId = None, oauthProviders = [],
      role = ''user'', isVerified = False, isActive = True, refreshTokens = [],
      lastLogin = None, passwordChangedAt = None\<rparr>"

definition schema_errors :: "user \<Rightarrow> (string \<times> string) list" where
  "schema_errors doc =
     (if email doc = [] then [(''email'', ''Path `email` is required.'')] else [])
     @ (if name doc = [] then [(''name'', ''Path `name` is required.'')] else [])
     @ (if \<not> truthy (googleId doc) \<and> \<not> truthy (githubId doc) \<and> \<not> truthy (appleId doc)
           \<and> \<not> truthy (password doc)
        then [(''password'', ''Path `password` is required.'')]
        else case password doc of
               None \<Rightarrow> []
             | Some pw \<Rightarrow>
                 if pw \<noteq> [] \<and> length pw < 8
                 then [(''password'', ''Path `password` is shorter than the minimum allowed length (8).'')]
                 else [])"

definition MongooseValidationError :: "(string \<times> string) list \<Rightarrow> js_error" where
  "MongooseValidationError errs =
     (Error ''User validation failed'')\<lparr>e_name := ''ValidationError'', e_errors := Some errs\<rparr>"

definition DuplicateKeyError :: "string \<Rightarrow> string \<Rightarrow> js_error" where
  "DuplicateKeyError k v =
     (Error ''E11000 duplicate key error'')
       \<lparr>e_name := ''MongoServerError'', e_code := Some (CodeNum 11000), e_keyValue := [(k, v)]\<rparr>"

definition create :: "env \<Rightarrow> user \<Rightarrow> user list \<Rightarrow> js_error + (user \<times> user list)" where
  "create e given store =
     (if schema_errors given \<noteq> [] then Inl (MongooseValidationError (schema_errors given))
      else case createError e of
        Some err \<Rightarrow> Inl err
      | None \<Rightarrow>
          if findOneByEmail (email given) store \<noteq> None
          then Inl (DuplicateKeyError ''email'' (email given))
          else let doc = given\<lparr>uid := newId e,
                                password := (if truthy (password given)
                                             then map_option (bcrypt_hash e) (password given)
                                             else password given)\<rparr>
               in Inr (doc, store @ [doc]))"

definition comparePassword :: "env \<Rightarrow> user \<Rightarrow> string \<Rightarrow> bool" where
  "comparePassword e u candidatePassword =
     (case password u of
        None \<Rightarrow> False
      | Some h \<Rightarrow> if h = [] then False else bcrypt_compare e candidatePassword h)"

subsection \<open>middleware/auth.js: authenticate\<close>

text \<open>
  The \<^verbatim>\<open>Authorization\<close> header: \<open>Bearer t\<close> is the string \<^verbatim>\<open>'Bearer '\<close> followed by the
  string \<open>t\<close>, \<open>OtherHeader s\<close> a string that does not start with \<^verbatim>\<open>'Bearer '\<close>.
  \<^verbatim>\<open>authHeader.split(' ')[1]\<close> is what follows up to the next space; the serialisation of
  a signed token has none.
\<close>

datatype auth_header = Bearer jwt | OtherHeader string

fun split_token :: "jwt \<Rightarrow> jwt" where
  "split_token (Signed p s) = Signed p s"
| "split_token (Opaque s) = Opaque (takeWhile (\<lambda>c. c \<noteq> CHR '' '') s)"

text \<open>
  \<^verbatim>\<open>.select('-password')\<close> keeps the hash out of the loaded document, and \<^verbatim>\<open>save\<close>
  writes the modified paths only; the model hands the stored document on, and \<open>toJSON\<close>
  drops the hash from every response.
\<close>

definition authenticate :: "env \<Rightarrow> auth_header option \<Rightarrow> user list \<Rightarrow> js_error + user" where
  "authenticate e authHeader store =
     (case authHeader of
        None \<Rightarrow> Inl (AuthenticationError ''No token provided'')
      | Some (OtherHeader s) \<Rightarrow> Inl (AuthenticationError ''No token provided'')
      | Some (Bearer t) \<Rightarrow>
          (case verifyAccessToken e (split_token t) of
             Inl err \<Rightarrow> Inl err
           | Inr decoded \<Rightarrow>
               (case findById (userId decoded) store of
                  None \<Rightarrow> Inl (AuthenticationError ''User not found or inactive'')
                | Some u \<Rightarrow>
                    if \<not> isActive u then Inl (AuthenticationError ''User not found or inactive'')
                    else if changedPasswordAfter u (iat decoded)
                    then Inl (AuthenticationError ''Password recently changed. Please login again.'')
                    else Inr u)))"

text \<open>
  A route behind \<^verbatim>\<open>authenticate\<close>: the error that the middleware passes to \<^verbatim>\<open>next\<close> is
  answered by \<^verbatim>\<open>errorHandler\<close>; \<^verbatim>\<open>GET /me\<close> answers with the user.
\<close>

definition get_me :: "env \<Rightarrow> auth_header option \<Rightarrow> user list \<Rightarrow> http_response" where
  "get_me e authHeader store =
     (case authenticate e authHeader store of
        Inl err \<Rightarrow> errorHandler e err
      | Inr u \<Rightarrow> \<lparr>status = 200, body = VObj [(''success'', VBool True), (''user'', toJSON u)]\<rparr>)"

subsection \<open>routes/auth.js\<close>

text \<open>
  A handler takes the result of \<^verbatim>\<open>validationResult(req)\<close> (the errors that the
  express-validator chain of the route found), the fields of \<^verbatim>\<open>req.body\<close>, the
  \<^verbatim>\<open>user-agent\<close> header and \<^verbatim>\<open>req.ip\<close>, and returns the response with the collection
  it leaves behind.
\<close>

definition failure :: "nat \<Rightarrow> string \<Rightarrow> http_response" where
  "failure code msg =
     \<lparr>status = code, body = VObj [(''success'', VBool False), (''message'', VStr msg)]\<rparr>"

definition caught :: "env \<Rightarrow> js_error \<Rightarrow> string \<Rightarrow> http_response" where
  "caught e err msg =
     failure 500 (if NODE_ENV e = ''development'' then e_message err else msg)"

definition session_body :: "user \<Rightarrow> jwt \<Rightarrow> jwt \<Rightarrow> jsval" where
  "session_body u accessToken refreshToken =
     VObj [(''success'', VBool True), (''user'', toJSON u), (''accessToken'', VTok accessToken),
           (''refreshToken'', VTok refreshToken), (''expiresIn'', VNum 900)]"

definition register ::
  "env \<Rightarrow> jsval list \<Rightarrow> string \<Rightarrow> string \<Rightarrow> string \<Rightarrow> string option \<Rightarrow> string option
     \<Rightarrow> user list \<Rightarrow> http_response \<times> user list" where
  "register e errors email' password' name' userAgent ip store =
     (if errors \<noteq> []
      then (\<lparr>status = 400, body = VObj [(''success'', VBool False), (''errors'', VArr errors)]\<rparr>,
            store)
      else case findOneByEmail email' store of
        Some existingUser \<Rightarrow> (failure 400 ''User already exists with this email'', store)
      | None \<Rightarrow>
          (case create e (new_document email' name' (Some password')) store of
             Inl err \<Rightarrow> (caught e err ''Registration failed'', store)
           | Inr (u, store1) \<Rightarrow>
               let accessToken = generateAccessToken e (uid u) (role u);
                   refreshToken = generateRefreshToken e (uid u);
                   u1 = addRefreshToken (now e) refreshToken (7 * 24 * 60 * 60) userAgent ip u
               in (case save e u1 store1 of
                     Inl err \<Rightarrow> (caught e err ''Registration failed'', store1)
                   | Inr store2 \<Rightarrow>
                       (\<lparr>status = 201, body = session_body u1 accessToken refreshToken\<rparr>,
                        store2))))"

definition login ::
  "env \<Rightarrow> jsval list \<Rightarrow> string \<Rightarrow> string \<Rightarrow> string option \<Rightarrow> string option
     \<Rightarrow> user list \<Rightarrow> http_response \<times> user list" where
  "login e errors email' password' userAgent ip store =
     (if errors \<noteq> []
      then (\<lparr>status = 400, body = VObj [(''success'', VBool False), (''errors'', VArr errors)]\<rparr>,
            store)
      else case findOneByEmail email' store of
        None \<Rightarrow> (failure 401 ''Invalid email or password'', store)
      | Some u \<Rightarrow>
          if \<not> comparePassword e u password'
          then (failure 401 ''Invalid email or password'', store)
          else if \<not> isActive u
          then (failure 401 ''Account is inactive. Please contact support.'', store)
          else
            let accessToken = generateAccessToken e (uid u) (role u);
                refreshToken = generateRefreshToken e (uid u);
                u1 = addRefreshToken (now e) refreshToken (7 * 24 * 60 * 60) userAgent ip u;
                u2 = u1\<lparr>lastLogin := Some (now e)\<rparr>;
                u3 = cleanupExpiredTokens (now e) u2
            in (case save e u3 store of
                  Inl err \<Rightarrow> (caught e err ''Login failed'', store)
                | Inr store1 \<Rightarrow>
                    (\<lparr>status = 200,
                      body = session_body (u3\<lparr>password := None\<rparr>) accessToken refreshToken\<rparr>,
                     store1)))"

text \<open>\<^verbatim>\<open>!refreshToken\<close>: no \<^verbatim>\<open>refreshToken\<close> in the body, or the empty string.\<close>

definition present :: "jwt option \<Rightarrow> bool" where
  "present t = (case t of None \<Rightarrow> False | Some x \<Rightarrow> x \<noteq> Opaque [])"

definition refresh :: "env \<Rightarrow> jwt option \<Rightarrow> user list \<Rightarrow> http_response \<times> user list" where
  "refresh e refreshToken store =
     (case refreshToken of
        None \<Rightarrow> (failure 400 ''Refresh token required'', store)
      | Some t \<Rightarrow>
          if \<not> present refreshToken then (failure 400 ''Refresh token required'', store)
          else case verifyRefreshToken e t of
            Inl err \<Rightarrow> (failure 401 ''Invalid or expired refresh token'', store)
          | Inr decoded \<Rightarrow>
              (case findById (userId decoded) store of
                 None \<Rightarrow> (failure 401 ''User not found or inactive'', store)
               | Some u \<Rightarrow>
                   if \<not> isActive u then (failure 401 ''User not found or inactive'', store)
                   else if \<not> list_ex (\<lambda>rt. token rt = t) (refreshTokens u)
                   then (failure 401 ''Invalid refresh token'', store)
                   else
                     (case save e (cleanupExpiredTokens (now e) u) store of
                        Inl err \<Rightarrow> (failure 401 ''Invalid or expired refresh token'', store)
                      | Inr store1 \<Rightarrow>
                          (\<lparr>status = 200,
                            body = VObj [(''success'', VBool True),
                                         (''accessToken'',
                                            VTok (generateAccessToken e (uid u) (role u))),
                                         (''expiresIn'', VNum 900)]\<rparr>,
                           store1))))"

text \<open>
  \<^verbatim>\<open>POST /logout\<close> runs behind \<^verbatim>\<open>authenticate\<close>. A failed removal is logged and the
  answer is the same.
\<close>

definition logged_out :: http_response where
  "logged_out =
     \<lparr>status = 200,
      body = VObj [(''success'', VBool True), (''message'', VStr ''Logged out successfully'')]\<rparr>"

definition logout ::
  "env \<Rightarrow> auth_header option \<Rightarrow> jwt option \<Rightarrow> user list \<Rightarrow> http_response \<times> user list" where
  "logout e authHeader refreshToken store =
     (case authenticate e authHeader store of
        Inl err \<Rightarrow> (errorHandler e err, store)
      | Inr u \<Rightarrow>
          (case refreshToken of
             None \<Rightarrow> (logged_out, store)
           | Some t \<Rightarrow>
               if \<not> present refreshToken then (logged_out, store)
               else case save e (removeRefreshToken t u) store of
                      Inl removeError \<Rightarrow> (logged_out, store)
                    | Inr store1 \<Rightarrow> (logged_out, store1)))"

subsection \<open>config/passport.js: the verify callback of the GitHub strategy\<close>

text \<open>
  The profile that passport-github2 builds; \<open>pp_emails\<close> and \<open>pp_photos\<close> hold the
  \<^verbatim>\<open>value\<close> of each entry. The callback ends in \<^verbatim>\<open>done(error, null)\<close> (\<open>Inl\<close>) or
  \<^verbatim>\<open>done(null, user)\<close> (\<open>Inr\<close>).
\<close>

record passport_profile =
  pp_id :: string
  pp_displayName :: "string option"
  pp_username :: "string option"
  pp_emails :: "string list option"
  pp_photos :: "string list option"

definition TypeError :: "string \<Rightarrow> js_error" where
  "TypeError msg = (Error msg)\<lparr>e_name := ''TypeError'', e_stack := ''TypeError: '' @ msg\<rparr>"

text \<open>\<^verbatim>\<open>profile.photos[0]?.value\<close> throws when \<^verbatim>\<open>profile.photos\<close> is \<^verbatim>\<open>undefined\<close>.\<close>

definition first_photo :: "passport_profile \<Rightarrow> js_error + string option" where
  "first_photo profile =
     (case pp_photos profile of
        None \<Rightarrow> Inl (TypeError ''Cannot read properties of undefined (reading 0)'')
      | Some [] \<Rightarrow> Inr None
      | Some (ph # _) \<Rightarrow> Inr (Some ph))"

definition or_else :: "string option \<Rightarrow> string option \<Rightarrow> string option" where
  "or_else a b = (if truthy a then a else b)"

definition touch_lastLogin ::
  "env \<Rightarrow> user \<Rightarrow> user list \<Rightarrow> (js_error + user) \<times> user list" where
  "touch_lastLogin e u store =
     (let u1 = u\<lparr>lastLogin := Some (now e)\<rparr>
      in case save e u1 store of
           Inl err \<Rightarrow> (Inl err, store)
         | Inr store1 \<Rightarrow> (Inr u1, store1))"

definition github_verify ::
  "env \<Rightarrow> passport_profile \<Rightarrow> user list \<Rightarrow> (js_error + user) \<times> user list" where
  "github_verify e profile store =
     (case (case pp_emails profile of Some (v # _) \<Rightarrow> (if v = [] then None else Some v)
                                    | _ \<Rightarrow> None) of
        None \<Rightarrow> (Inl (Error ''Email not provided by GitHub''), store)
      | Some email' \<Rightarrow>
         (case findOneByGithubId (pp_id profile) store of
            Some u \<Rightarrow> touch_lastLogin e u store
          | None \<Rightarrow>
             (case findOneByEmail email' store of
                Some u \<Rightarrow>
                  (case first_photo profile of
                     Inl err \<Rightarrow> (Inl err, store)
                   | Inr photo \<Rightarrow>
                       let u1 = linkOAuthProvider (now e) ''github''
                                  \<lparr>lp_id = pp_id profile, lp_email = Some email',
                                   lp_displayName = pp_displayName profile, lp_avatar = photo,
                                   lp_emailVerified = True\<rparr> u
                       in (case save e u1 store of
                             Inl err \<Rightarrow> (Inl err, store)
                           | Inr store1 \<Rightarrow> touch_lastLogin e u1 store1))
              | None \<Rightarrow>
                  (case first_photo profile of
                     Inl err \<Rightarrow> (Inl err, store)
                   | Inr photo \<Rightarrow>
                       let name' = or_else (pp_displayName profile) (pp_username profile);
                           given = (new_document email'
                                      (case name' of None \<Rightarrow> [] | Some n \<Rightarrow> n) None)
                                   \<lparr>githubId := Some (pp_id profile), avatar := photo,
                                    isVerified := True,
                                    oauthProviders :=
                                      [\<lparr>provider = ''github'', providerId = pp_id profile,
                                        op_email = Some email', displayName = name',
                                        op_avatar = photo, op_accessToken = None,
                                        op_refreshToken = None, connectedAt = now e\<rparr>]\<rparr>
                       in (case create e given store of
                             Inl err \<Rightarrow> (Inl err, store)
                           | Inr (u, store1) \<Rightarrow> touch_lastLogin e u store1)))))"

subsection \<open>A concrete environment and concrete documents\<close>

text \<open>
  The secrets are the development defaults of \<^verbatim>\<open>utils/jwt.js\<close>. bcrypt is replaced by a
  stand-in that prefixes the plaintext; the closed theorems below read nothing of a
  hash but whether \<^verbatim>\<open>compare\<close> accepts it.
\<close>

definition demo_env :: env where
  "demo_env =
     \<lparr>ACCESS_TOKEN_SECRET = ''dev-access-secret-change-in-production'',
      REFRESH_TOKEN_SECRET = ''dev-refresh-secret-change-in-production'',
      NODE_ENV = ''production'',
      now = 1700000000200,
      newId = ''507f1f77bcf86cd799439011'',
      bcrypt_hash = (\<lambda>p. ''$2a$12$'' @ p),
      bcrypt_compare = (\<lambda>candidate h. h = ''$2a$12$'' @ candidate),
      createError = None,
      saveError = None\<rparr>"

text \<open>The account that a successful registration leaves in an empty collection.\<close>

definition alice :: user where
  "alice =
     \<lparr>uid = ''507f1f77bcf86cd799439011'', email = ''alice@example.com'', name = ''Alice'',
      avatar = None, password = Some ''$2a$12$Secret123!'',
      googleId = None, githubId = None, appleId = None, oauthProviders = [],
      role = ''user'', isVerified = False, isActive = True,
      refreshTokens =
        [\<lparr>token = generateRefreshToken demo_env ''507f1f77bcf86cd799439011'',
          createdAt = 1700000000200, expiresAt = 1700604800200,
          device = None, ipAddress = None\<rparr>],
      lastLogin = None, passwordChangedAt = None\<rparr>"


text \<open>An account that signs in with GitHub only, and one with a password and a GitHub link.\<close>

definition github_entry :: "string \<Rightarrow> oauth_provider" where
  "github_entry i =
     \<lparr>provider = ''github'', providerId = i, op_email = Some ''alice@example.com'',
      displayName = Some ''Alice'', op_avatar = None, op_accessToken = None,
      op_refreshToken = None, connectedAt = 1600000000000\<rparr>"

definition github_only :: user where
  "github_only = alice\<lparr>password := None, githubId := Some ''41'',
                        oauthProviders := [github_entry ''41''], refreshTokens := []\<rparr>"

definition alice_linked :: user where
  "alice_linked = alice\<lparr>githubId := Some ''41'', oauthProviders := [github_entry ''41'']\<rparr>"

definition github_42 :: passport_profile where
  "github_42 =
     \<lparr>pp_id = ''42'', pp_displayName = Some ''Alice'', pp_username = Some ''alice'',
      pp_emails = Some [''alice@example.com''], pp_photos = Some []\<rparr>"

text \<open>
  The scenario of the model's own unit test: six tokens added to an account that holds none.
\<close>

definition six_tokens :: "user_op list" where
  "six_tokens = map (\<lambda>s. AddRefreshToken 0 (Opaque s) 604800 None None)
      [''token1'', ''token2'', ''token3'', ''token4'', ''token5'', ''token6'']"

definition five_tokens :: user where
  "five_tokens = apply_ops (take 5 six_tokens) (alice\<lparr>refreshTokens := []\<rparr>)"

text \<open>
  A password change 500 ms after the token of \<open>demo_env\<close> was signed, and one 30 s
  after it; a request 60 s after the token was signed, and one when it has expired.
\<close>

definition alice_changed :: user where
  "alice_changed = alice\<lparr>passwordChangedAt := Some 1700000000700\<rparr>"

definition alice_changed_later :: user where
  "alice_changed_later = alice\<lparr>passwordChangedAt := Some 1700000030000\<rparr>"

definition later :: env where
  "later = demo_env\<lparr>now := 1700000060000\<rparr>"

definition much_later :: env where
  "much_later = demo_env\<lparr>now := 1700000900200\<rparr>"

definition alice_access :: jwt where
  "alice_access = generateAccessToken demo_env (uid alice) (role alice)"

definition alice_refresh :: jwt where
  "alice_refresh = generateRefreshToken demo_env (uid alice)"

definition alice_claims :: payload where
  "alice_claims = \<lparr>userId = ''507f1f77bcf86cd799439011'', p_role = Some ''user'',
                    p_type = ''access'', iat = 1700000000, exp = 1700000900\<rparr>"


text \<open>What \<^verbatim>\<open>errorHandler\<close> answers to an error that has no \<^verbatim>\<open>statusCode\<close> and no \<^verbatim>\<open>code\<close>.\<close>

definition internal_error :: http_response where
  "internal_error =
     \<lparr>status = 500,
      body = VObj [(''success'', VBool False),
                   (''error'', VStr ''Invalid or expired access token''),
                   (''code'', VStr ''INTERNAL_ERROR'')]\<rparr>"


definition relinked :: user where
  "relinked = alice_linked\<lparr>oauthProviders := [github_entry ''42''], isVerified := True,
                            lastLogin := Some 1700000000200\<rparr>"

text \<open>
  Sessions of Alice: the environment at another time, a login with her credentials at
  that time, and the collection after she has registered and logged in four times,
  the first login in the second of the registration. \<open>alice_sessions\<close> is her account
  holding one refresh token per listed time.
\<close>

definition at_ms :: "int \<Rightarrow> env" where
  "at_ms clock = demo_env\<lparr>now := clock\<rparr>"

definition alice_login :: "int \<Rightarrow> user list \<Rightarrow> user list" where
  "alice_login clock store =
     snd (login (at_ms clock) [] ''alice@example.com'' ''Secret123!'' None None store)"

definition five_sessions :: "user list" where
  "five_sessions =
     alice_login 1700000003000 (alice_login 1700000002000 (alice_login 1700000001000
       (alice_login 1700000000800
          (snd (register demo_env [] ''alice@example.com'' ''Secret123!'' ''Alice'' None None [])))))"

definition refresh_at :: "int \<Rightarrow> jwt" where
  "refresh_at clock = generateRefreshToken (at_ms clock) ''507f1f77bcf86cd799439011''"

definition session_entry :: "int \<Rightarrow> refresh_token" where
  "session_entry clock =
     \<lparr>token = refresh_at clock, createdAt = clock, expiresAt = clock + 604800000,
      device = None, ipAddress = None\<rparr>"

definition alice_sessions :: "int list \<Rightarrow> user" where
  "alice_sessions clocks =
     alice\<lparr>refreshTokens := map session_entry clocks,
           lastLogin := (if length clocks \<le> 1 then None else Some (last clocks))\<rparr>"

definition alice_five :: user where
  "alice_five = alice_sessions [1700000000200, 1700000000800, 1700000001000,
                                1700000002000, 1700000003000]"


section \<open>Verified properties\<close>

subsection \<open>The cap on refresh tokens\<close>

lemma addRefreshToken_length:
  "length (refreshTokens (addRefreshToken clock tok expiresIn dev ip u)) =
     min 5 (Suc (length (refreshTokens u)))"
  by (simp add: addRefreshToken_def Let_def)

lemma set_provider_id_refreshTokens [simp]:
  "refreshTokens (set_provider_id prov v u) = refreshTokens u"
  by (simp add: set_provider_id_def Let_def)

lemma linkOAuthProvider_refreshTokens:
  "refreshTokens (linkOAuthProvider clock prov profile u) = refreshTokens u"
  by (simp add: linkOAuthProvider_def Let_def split: option.splits)

lemma unlinkOAuthProvider_refreshTokens:
  "refreshTokens (unlinkOAuthProvider prov u) = refreshTokens u"
  by (simp add: unlinkOAuthProvider_def)

lemma apply_op_cap:
  assumes "length (refreshTokens u) \<le> 5"
  shows "length (refreshTokens (apply_op x u)) \<le> 5"
proof (cases x)
  case (AddRefreshToken clock tok expiresIn dev ip)
  then show ?thesis by (simp add: addRefreshToken_length)
next
  case (RemoveRefreshToken tok)
  have "length (filter (\<lambda>rt. token rt \<noteq> tok) (refreshTokens u)) \<le> 5"
    by (rule le_trans [OF length_filter_le assms])
  with RemoveRefreshToken show ?thesis by (simp add: removeRefreshToken_def)
next
  case (CleanupExpiredTokens clock)
  have "length (filter (\<lambda>rt. expiresAt rt > clock) (refreshTokens u)) \<le> 5"
    by (rule le_trans [OF length_filter_le assms])
  with CleanupExpiredTokens show ?thesis by (simp add: cleanupExpiredTokens_def)
next
  case (LinkOAuthProvider clock prov profile)
  with assms show ?thesis by (simp add: linkOAuthProvider_refreshTokens)
next
  case (UnlinkOAuthProvider prov)
  with assms show ?thesis by (simp add: unlinkOAuthProvider_refreshTokens)
qed

lemma apply_ops_cap:
  "length (refreshTokens u) \<le> 5 \<Longrightarrow> length (refreshTokens (apply_ops xs u)) \<le> 5"
  by (induction xs arbitrary: u) (simp_all add: apply_op_cap)

lemma addRefreshToken_full:
  assumes "length (refreshTokens u) = 5"
  shows "refreshTokens (addRefreshToken clock tok expiresIn dev ip u) =
           tl (refreshTokens u) @
           [\<lparr>token = tok, createdAt = clock, expiresAt = clock + expiresIn * 1000,
             device = dev, ipAddress = ip\<rparr>]"
  using assms by (cases "refreshTokens u") (simp_all add: addRefreshToken_def Let_def)

lemma same_second: "refresh_at 1700000000800 = alice_refresh \<and> refresh_at 1700000000200 = alice_refresh"
  by (simp add: refresh_at_def alice_refresh_def generateRefreshToken_def jwt_sign_def at_ms_def
        demo_env_def alice_def)

lemma registered:
  "snd (register demo_env [] ''alice@example.com'' ''Secret123!'' ''Alice'' None None [])
     = [alice_sessions [1700000000200]]"
  by (simp add: register_def findOneByEmail_def create_def new_document_def schema_errors_def
        truthy_def save_def addRefreshToken_def Let_def alice_sessions_def session_entry_def
        refresh_at_def at_ms_def demo_env_def alice_def)

lemma alice_login_step:
  assumes "clocks \<noteq> []" and "length clocks < 5" and "\<forall>c \<in> set clocks. clock < c + 604800000"
  shows "alice_login clock [alice_sessions clocks] = [alice_sessions (clocks @ [clock])]"
  using assms
  apply (simp add: alice_login_def login_def findOneByEmail_def comparePassword_def save_def
        addRefreshToken_def cleanupExpiredTokens_def Let_def alice_sessions_def session_entry_def
        refresh_at_def at_ms_def)
  apply (simp add: demo_env_def alice_def filter_id_conv session_entry_def)
  done

lemma five_sessions_eq:
  "five_sessions = [alice_sessions [1700000000200, 1700000000800, 1700000001000,
                                    1700000002000, 1700000003000]]"
  by (simp add: five_sessions_def registered alice_login_step)

lemma sixth_login:
  "alice_login 1700000004000 [alice_five]
     = [alice_sessions [1700000000800, 1700000001000, 1700000002000, 1700000003000,
                        1700000004000]]"
  by (simp add: alice_five_def alice_login_def login_def findOneByEmail_def comparePassword_def
        save_def addRefreshToken_def cleanupExpiredTokens_def Let_def alice_sessions_def
        session_entry_def refresh_at_def at_ms_def demo_env_def alice_def)

lemma evicted_still_refreshes:
  "status (fst (refresh (at_ms 1700000005000) (Some alice_refresh)
     [alice_sessions [1700000000800, 1700000001000, 1700000002000, 1700000003000,
                      1700000004000]])) = 200"
  by (simp add: refresh_def present_def verifyRefreshToken_def jwt_verify_def findById_def
        save_def alice_sessions_def session_entry_def refresh_at_def alice_refresh_def
        generateRefreshToken_def jwt_sign_def REFRESH_TOKEN_EXPIRY_def at_ms_def demo_env_def
        alice_def)

text \<open>
  \<^bold>\<open>C4, as the claim states it, fails.\<close> \<^verbatim>\<open>jwt.sign\<close> puts nothing into a refresh token
  but the user, the type and the second of signing, so the token of Alice's
  registration and the token of her login 600 ms later are the same string. After
  three more logins her list holds 5 entries, the oldest of them with that string. The
  next addition leaves 5 entries, and the string of the oldest entry is still among
  them, held by the entry of the first login; a Refresh with it is answered 200.
\<close>

theorem oldest_token_counterexample:
  "five_sessions = [alice_five]
   \<and> length (refreshTokens alice_five) = 5
   \<and> token (hd (refreshTokens alice_five)) = alice_refresh
   \<and> length (refreshTokens (addRefreshToken 1700000004000 (refresh_at 1700000004000) 604800
               None None alice_five)) = 5
   \<and> alice_refresh \<in> set (map token (refreshTokens
        (addRefreshToken 1700000004000 (refresh_at 1700000004000) 604800 None None alice_five)))
   \<and> status (fst (refresh (at_ms 1700000005000) (Some alice_refresh)
        (alice_login 1700000004000 five_sessions))) = 200"
proof -
  have reach: "five_sessions = [alice_five]"
    by (simp add: five_sessions_eq alice_five_def)
  have len: "length (refreshTokens alice_five) = 5"
    by (simp add: alice_five_def alice_sessions_def)
  have oldest: "token (hd (refreshTokens alice_five)) = alice_refresh"
    by (simp add: alice_five_def alice_sessions_def session_entry_def same_second)
  have len': "length (refreshTokens (addRefreshToken 1700000004000 (refresh_at 1700000004000)
                604800 None None alice_five)) = 5"
    by (simp add: addRefreshToken_def Let_def alice_five_def alice_sessions_def)
  have kept: "alice_refresh \<in> set (map token (refreshTokens
        (addRefreshToken 1700000004000 (refresh_at 1700000004000) 604800 None None alice_five)))"
    by (simp add: addRefreshToken_def Let_def alice_five_def alice_sessions_def session_entry_def
          same_second)
  have ok: "status (fst (refresh (at_ms 1700000005000) (Some alice_refresh)
        (alice_login 1700000004000 five_sessions))) = 200"
    by (simp only: reach sixth_login evicted_still_refreshes)
  from reach len oldest len' kept ok show ?thesis by simp
qed

text \<open>
  \<^bold>\<open>C4, amended.\<close> \<^verbatim>\<open>addRefreshToken\<close> never leaves more than 5 entries, and no method of
  the schema takes a list of at most 5 entries beyond 5. On a list of exactly 5 entries
  it leaves exactly 5: the former entries but the first (the oldest), in their order,
  followed by the new entry, which is last. The token string of the oldest entry is
  absent from the result if and only if it is neither the string added nor the string
  of a younger entry.
\<close>

theorem refreshTokens_cap:
  "length (refreshTokens (addRefreshToken clock tok expiresIn dev ip u)) \<le> 5
   \<and> (length (refreshTokens u) \<le> 5 \<longrightarrow> length (refreshTokens (apply_ops xs u)) \<le> 5)
   \<and> (length (refreshTokens u) = 5 \<longrightarrow>
        length (refreshTokens (addRefreshToken clock tok expiresIn dev ip u)) = 5
        \<and> refreshTokens (addRefreshToken clock tok expiresIn dev ip u) =
            tl (refreshTokens u) @
            [\<lparr>token = tok, createdAt = clock, expiresAt = clock + expiresIn * 1000,
              device = dev, ipAddress = ip\<rparr>]
        \<and> token (last (refreshTokens (addRefreshToken clock tok expiresIn dev ip u))) = tok
        \<and> (token (hd (refreshTokens u))
              \<notin> set (map token (refreshTokens (addRefreshToken clock tok expiresIn dev ip u)))
            \<longleftrightarrow> token (hd (refreshTokens u)) \<noteq> tok
                \<and> token (hd (refreshTokens u)) \<notin> set (map token (tl (refreshTokens u)))))"
proof (intro conjI impI)
  show "length (refreshTokens (addRefreshToken clock tok expiresIn dev ip u)) \<le> 5"
    by (simp add: addRefreshToken_length)
next
  assume "length (refreshTokens u) \<le> 5"
  then show "length (refreshTokens (apply_ops xs u)) \<le> 5" by (rule apply_ops_cap)
next
  assume "length (refreshTokens u) = 5"
  then show "length (refreshTokens (addRefreshToken clock tok expiresIn dev ip u)) = 5"
    by (simp add: addRefreshToken_length)
next
  assume "length (refreshTokens u) = 5"
  then show "refreshTokens (addRefreshToken clock tok expiresIn dev ip u) =
            tl (refreshTokens u) @
            [\<lparr>token = tok, createdAt = clock, expiresAt = clock + expiresIn * 1000,
              device = dev, ipAddress = ip\<rparr>]"
    by (rule addRefreshToken_full)
next
  assume "length (refreshTokens u) = 5"
  then show "token (last (refreshTokens (addRefreshToken clock tok expiresIn dev ip u))) = tok"
    by (simp add: addRefreshToken_full)
next
  assume "length (refreshTokens u) = 5"
  then show "token (hd (refreshTokens u))
       \<notin> set (map token (refreshTokens (addRefreshToken clock tok expiresIn dev ip u)))
     \<longleftrightarrow> token (hd (refreshTokens u)) \<noteq> tok
         \<and> token (hd (refreshTokens u)) \<notin> set (map token (tl (refreshTokens u)))"
    by (auto simp: addRefreshToken_full)
qed

theorem refreshTokens_cap_witness:
  "length (refreshTokens five_tokens) = 5
   \<and> token (hd (refreshTokens five_tokens)) = Opaque ''token1''
   \<and> Opaque ''token1'' \<noteq> Opaque ''token6''
   \<and> Opaque ''token1'' \<notin> set (map token (tl (refreshTokens five_tokens)))
   \<and> map token (refreshTokens (addRefreshToken 0 (Opaque ''token6'') 604800 None None five_tokens))
       = map Opaque [''token2'', ''token3'', ''token4'', ''token5'', ''token6'']
   \<and> Opaque ''token1''
       \<notin> set (map token
             (refreshTokens (addRefreshToken 0 (Opaque ''token6'') 604800 None None five_tokens)))
   \<and> length (refreshTokens (apply_ops six_tokens five_tokens)) \<le> 5
   \<and> length (refreshTokens alice_five) = 5
   \<and> token (hd (refreshTokens alice_five)) \<in> set (map token (tl (refreshTokens alice_five)))
   \<and> token (hd (refreshTokens alice_five))
       \<in> set (map token (refreshTokens
            (addRefreshToken 1700000004000 (refresh_at 1700000004000) 604800 None None
               alice_five)))"
proof -
  have len: "length (refreshTokens alice_five) = 5"
    by (simp add: alice_five_def alice_sessions_def)
  have dup: "token (hd (refreshTokens alice_five)) \<in> set (map token (tl (refreshTokens alice_five)))"
    by (simp add: alice_five_def alice_sessions_def session_entry_def same_second)
  have first:
    "length (refreshTokens five_tokens) = 5
     \<and> token (hd (refreshTokens five_tokens)) = Opaque ''token1''
     \<and> Opaque ''token1'' \<noteq> Opaque ''token6''
     \<and> Opaque ''token1'' \<notin> set (map token (tl (refreshTokens five_tokens)))
     \<and> map token (refreshTokens (addRefreshToken 0 (Opaque ''token6'') 604800 None None five_tokens))
         = map Opaque [''token2'', ''token3'', ''token4'', ''token5'', ''token6'']
     \<and> Opaque ''token1''
         \<notin> set (map token
               (refreshTokens (addRefreshToken 0 (Opaque ''token6'') 604800 None None five_tokens)))
     \<and> length (refreshTokens (apply_ops six_tokens five_tokens)) \<le> 5"
    using refreshTokens_cap [of 0 "Opaque ''token6''" 604800 None None five_tokens six_tokens]
    by (simp add: five_tokens_def six_tokens_def addRefreshToken_def alice_def Let_def)
  have second: "token (hd (refreshTokens alice_five))
       \<in> set (map token (refreshTokens
            (addRefreshToken 1700000004000 (refresh_at 1700000004000) 604800 None None
               alice_five)))"
    using refreshTokens_cap [of 1700000004000 "refresh_at 1700000004000" 604800 None None
            alice_five "[]"] len dup
    by blast
  from first len dup second show ?thesis by simp
qed

subsection \<open>The serialised user\<close>

lemma provider_reduced:
  "VObj [(''provider'', get_prop ''provider'' (provider_object p)),
         (''connectedAt'', get_prop ''connectedAt'' (provider_object p))]
   = VObj [(''provider'', VStr (provider p)), (''connectedAt'', VDate (connectedAt p))]"
  by (simp add: provider_object_def opt_prop_def map_add_def split: option.splits)

lemma toJSON_shape:
  "toJSON u =
     VObj ([(''_id'', VStr (uid u)), (''email'', VStr (email u)), (''name'', VStr (name u)),
            (''avatar'', (case avatar u of None \<Rightarrow> VNull | Some a \<Rightarrow> VStr a))]
           @ opt_prop ''googleId'' VStr (googleId u)
           @ opt_prop ''githubId'' VStr (githubId u)
           @ opt_prop ''appleId'' VStr (appleId u)
           @ [(''oauthProviders'',
                 VArr (map (\<lambda>p. VObj [(''provider'', VStr (provider p)),
                                          (''connectedAt'', VDate (connectedAt p))])
                           (oauthProviders u))),
              (''role'', VStr (role u)),
              (''isVerified'', VBool (isVerified u)),
              (''isActive'', VBool (isActive u))]
           @ opt_prop ''lastLogin'' VDate (lastLogin u)
           @ opt_prop ''passwordChangedAt'' VDate (passwordChangedAt u))"
  by (simp add: toJSON_def toObject_def opt_prop_def Let_def map_add_def provider_reduced o_def
           split: option.splits)

text \<open>
  \<^bold>\<open>C10.\<close> The object that \<^verbatim>\<open>toJSON\<close> returns has no \<^verbatim>\<open>password\<close> and no
  \<^verbatim>\<open>refreshTokens\<close> property, and its \<^verbatim>\<open>oauthProviders\<close> is the array of the stored
  entries, each reduced to an object whose only properties are \<^verbatim>\<open>provider\<close> and
  \<^verbatim>\<open>connectedAt\<close>: the entry's \<^verbatim>\<open>providerId\<close>, \<^verbatim>\<open>email\<close>, \<^verbatim>\<open>displayName\<close>, \<^verbatim>\<open>avatar\<close>,
  \<^verbatim>\<open>accessToken\<close> and \<^verbatim>\<open>refreshToken\<close> are not in it.
\<close>

theorem toJSON_safe:
  "''password'' \<notin> set (own_keys (toJSON u))
   \<and> ''refreshTokens'' \<notin> set (own_keys (toJSON u))
   \<and> get_prop ''password'' (toJSON u) = VUndefined
   \<and> get_prop ''refreshTokens'' (toJSON u) = VUndefined
   \<and> get_prop ''oauthProviders'' (toJSON u) =
       VArr (map (\<lambda>p. VObj [(''provider'', VStr (provider p)),
                                (''connectedAt'', VDate (connectedAt p))])
                 (oauthProviders u))
   \<and> list_all (\<lambda>entry. own_keys entry = [''provider'', ''connectedAt''])
        (elements (get_prop ''oauthProviders'' (toJSON u)))"
  by (simp add: toJSON_shape opt_prop_def map_add_def list_all_iff split: option.splits)

subsection \<open>Unlinking the last identity\<close>

text \<open>
  \<^bold>\<open>C9, as the claim states it, fails.\<close> The account \<open>github_only\<close> has no password and
  exactly one linked identity, of GitHub. \<^verbatim>\<open>unlinkOAuthProvider('github')\<close> returns
  normally (the method has no \<^verbatim>\<open>throw\<close>) and the document is changed: it is left with
  no linked identity and no GitHub id.
\<close>

theorem unlink_last_identity_counterexample:
  "password github_only = None
   \<and> length (oauthProviders github_only) = 1
   \<and> provider (hd (oauthProviders github_only)) = ''github''
   \<and> unlinkOAuthProvider ''github'' github_only \<noteq> github_only
   \<and> oauthProviders (unlinkOAuthProvider ''github'' github_only) = []
   \<and> githubId (unlinkOAuthProvider ''github'' github_only) = None"
  by (simp add: unlinkOAuthProvider_def set_provider_id_def github_only_def github_entry_def
        alice_def Let_def)

text \<open>
  \<^bold>\<open>C9, amended.\<close> For every User with no password and exactly one linked identity,
  unlinking that identity's provider does not fail: it removes the entry and clears
  the provider's id field, which leaves a User with no password and no linked identity.
\<close>

theorem unlink_last_identity:
  assumes "password u = None" and "oauthProviders u = [entry]" and "provider entry = prov"
  shows "unlinkOAuthProvider prov u = set_provider_id prov None (u\<lparr>oauthProviders := []\<rparr>)
         \<and> oauthProviders (unlinkOAuthProvider prov u) = []
         \<and> password (unlinkOAuthProvider prov u) = None
         \<and> googleId (unlinkOAuthProvider prov u) = (if prov = ''google'' then None else googleId u)
         \<and> githubId (unlinkOAuthProvider prov u) = (if prov = ''github'' then None else githubId u)
         \<and> appleId (unlinkOAuthProvider prov u) = (if prov = ''apple'' then None else appleId u)
         \<and> unlinkOAuthProvider prov u \<noteq> u"
proof -
  have ops: "oauthProviders (unlinkOAuthProvider prov u) = []"
    using assms by (simp add: unlinkOAuthProvider_def set_provider_id_def Let_def)
  have "oauthProviders (unlinkOAuthProvider prov u) \<noteq> oauthProviders u"
    using assms ops by simp
  then have ne: "unlinkOAuthProvider prov u \<noteq> u" by auto
  show ?thesis
    using assms ne by (simp add: unlinkOAuthProvider_def set_provider_id_def Let_def)
qed

theorem unlink_last_identity_witness:
  "password github_only = None
   \<and> oauthProviders github_only = [github_entry ''41'']
   \<and> provider (github_entry ''41'') = ''github''
   \<and> unlinkOAuthProvider ''github'' github_only =
       github_only\<lparr>oauthProviders := [], githubId := None\<rparr>"
proof -
  have a: "password github_only = None" by (simp add: github_only_def)
  have b: "oauthProviders github_only = [github_entry ''41'']" by (simp add: github_only_def)
  have c: "provider (github_entry ''41'') = ''github''" by (simp add: github_entry_def)
  show ?thesis
    using unlink_last_identity [OF a b c] a b c
    by (simp add: set_provider_id_def Let_def)
qed

subsection \<open>Token verification\<close>

text \<open>
  \<^bold>\<open>C5.\<close> Whatever the two secrets, the clocks, the user and the role: an access token
  that \<^verbatim>\<open>generateAccessToken\<close> signed fails \<^verbatim>\<open>verifyRefreshToken\<close>, and a refresh token
  that \<^verbatim>\<open>generateRefreshToken\<close> signed fails \<^verbatim>\<open>verifyAccessToken\<close>. \<^verbatim>\<open>verifyAccessToken\<close>
  throws its one error for a string that is no token and for a token whose signature
  is not the access secret's, that has expired or whose \<^verbatim>\<open>type\<close> is not \<^verbatim>\<open>'access'\<close>,
  and returns the claims of every other token; \<^verbatim>\<open>verifyRefreshToken\<close> does the same with
  the refresh secret and \<^verbatim>\<open>'refresh'\<close>.
\<close>

theorem token_type_isolation:
  "verifyRefreshToken e' (generateAccessToken e i r) = Inl (Error ''Invalid or expired refresh token'')
   \<and> verifyAccessToken e' (generateRefreshToken e i) = Inl (Error ''Invalid or expired access token'')
   \<and> verifyAccessToken e (Opaque s) = Inl (Error ''Invalid or expired access token'')
   \<and> verifyAccessToken e (Signed p secret) =
       (if secret = ACCESS_TOKEN_SECRET e \<and> now e div 1000 < exp p \<and> p_type p = ''access''
        then Inr p else Inl (Error ''Invalid or expired access token''))
   \<and> verifyRefreshToken e (Opaque s) = Inl (Error ''Invalid or expired refresh token'')
   \<and> verifyRefreshToken e (Signed p secret) =
       (if secret = REFRESH_TOKEN_SECRET e \<and> now e div 1000 < exp p \<and> p_type p = ''refresh''
        then Inr p else Inl (Error ''Invalid or expired refresh token''))"
  by (simp add: verifyAccessToken_def verifyRefreshToken_def generateAccessToken_def
        generateRefreshToken_def jwt_sign_def jwt_verify_def)

subsection \<open>Stale tokens\<close>

lemma verifyAccessToken_Signed:
  "verifyAccessToken e t = Inr d \<Longrightarrow> t = Signed d (ACCESS_TOKEN_SECRET e)"
  by (cases t) (auto simp: verifyAccessToken_def jwt_verify_def split: if_splits)

lemma alice_access_verified: "verifyAccessToken later alice_access = Inr alice_claims"
  by (simp add: verifyAccessToken_def jwt_verify_def alice_access_def generateAccessToken_def
        jwt_sign_def later_def demo_env_def alice_def ACCESS_TOKEN_EXPIRY_def alice_claims_def)

lemma alice_access_split: "split_token alice_access = alice_access"
  by (simp add: alice_access_def generateAccessToken_def jwt_sign_def)

text \<open>
  \<^bold>\<open>C7, as the claim states it, fails.\<close> The token was signed at 1700000000200 ms, so its
  \<^verbatim>\<open>iat\<close> is 1700000000 s; the password was changed 500 ms later, at 1700000000700 ms.
  The token is valid and unexpired when it is presented 60 s later, its issued-at time
  precedes \<^verbatim>\<open>passwordChangedAt\<close>, and \<^verbatim>\<open>authenticate\<close> accepts it:
  \<^verbatim>\<open>changedPasswordAfter\<close> compares whole seconds, and both fall in the same second.
\<close>

theorem stale_token_counterexample:
  "verifyAccessToken later alice_access = Inr alice_claims
   \<and> passwordChangedAt alice_changed = Some 1700000000700
   \<and> now demo_env < 1700000000700
   \<and> iat alice_claims * 1000 < 1700000000700
   \<and> authenticate later (Some (Bearer alice_access)) [alice_changed] = Inr alice_changed"
  by (simp add: alice_access_verified alice_access_split authenticate_def findById_def
        changedPasswordAfter_def parseInt_seconds_def,
      simp add: alice_changed_def alice_def alice_claims_def demo_env_def parseInt_seconds_def)

text \<open>
  \<^bold>\<open>C7, amended.\<close> For every User with a \<^verbatim>\<open>passwordChangedAt\<close> and every access token
  that is valid and unexpired, \<^verbatim>\<open>authenticate\<close> rejects the token with an
  \<^verbatim>\<open>AuthenticationError\<close> when the token's \<^verbatim>\<open>iat\<close> (in seconds) is less than
  \<^verbatim>\<open>passwordChangedAt\<close> truncated to whole seconds, although the token has not expired;
  when it is not less and the User is active, the token is accepted.
\<close>

theorem stale_token:
  assumes "verifyAccessToken e t = Inr d"
    and "findById (userId d) store = Some u"
    and "passwordChangedAt u = Some changed"
  shows "(iat d < parseInt_seconds changed \<longrightarrow>
            authenticate e (Some (Bearer t)) store =
              Inl (AuthenticationError (if isActive u
                     then ''Password recently changed. Please login again.''
                     else ''User not found or inactive'')))
         \<and> (isActive u \<and> \<not> iat d < parseInt_seconds changed \<longrightarrow>
              authenticate e (Some (Bearer t)) store = Inr u)"
proof -
  have t: "t = Signed d (ACCESS_TOKEN_SECRET e)"
    using assms(1) by (rule verifyAccessToken_Signed)
  then have "split_token t = t" by simp
  with assms show ?thesis
    by (simp add: authenticate_def changedPasswordAfter_def)
qed

theorem stale_token_witness:
  "verifyAccessToken later alice_access = Inr alice_claims
   \<and> findById (userId alice_claims) [alice_changed_later] = Some alice_changed_later
   \<and> passwordChangedAt alice_changed_later = Some 1700000030000
   \<and> iat alice_claims < parseInt_seconds 1700000030000
   \<and> authenticate later (Some (Bearer alice_access)) [alice_changed_later] =
       Inl (AuthenticationError ''Password recently changed. Please login again.'')
   \<and> findById (userId alice_claims) [alice_changed] = Some alice_changed
   \<and> passwordChangedAt alice_changed = Some 1700000000700
   \<and> isActive alice_changed
   \<and> \<not> iat alice_claims < parseInt_seconds 1700000000700
   \<and> authenticate later (Some (Bearer alice_access)) [alice_changed] = Inr alice_changed"
proof -
  have b: "findById (userId alice_claims) [alice_changed_later] = Some alice_changed_later"
    by (simp add: findById_def alice_claims_def alice_changed_later_def alice_def)
  have c: "passwordChangedAt alice_changed_later = Some 1700000030000"
    by (simp add: alice_changed_later_def)
  have d: "iat alice_claims < parseInt_seconds 1700000030000"
    by (simp add: alice_claims_def parseInt_seconds_def)
  have f: "isActive alice_changed_later"
    by (simp add: alice_changed_later_def alice_def)
  have b': "findById (userId alice_claims) [alice_changed] = Some alice_changed"
    by (simp add: findById_def alice_claims_def alice_changed_def alice_def)
  have c': "passwordChangedAt alice_changed = Some 1700000000700"
    by (simp add: alice_changed_def)
  have d': "\<not> iat alice_claims < parseInt_seconds 1700000000700"
    by (simp add: alice_claims_def parseInt_seconds_def)
  have f': "isActive alice_changed"
    by (simp add: alice_changed_def alice_def)
  show ?thesis
    using stale_token [OF alice_access_verified b c] stale_token [OF alice_access_verified b' c']
      alice_access_verified b c d f b' c' d' f'
    by simp
qed

subsection \<open>An invalid access token\<close>

text \<open>
  Outside development, every token that \<^verbatim>\<open>verifyAccessToken\<close> rejects gets the same
  answer from \<^verbatim>\<open>errorHandler\<close>.
\<close>

lemma invalid_token_answer:
  assumes "verifyAccessToken e (split_token t) = Inl err" and "NODE_ENV e \<noteq> ''development''"
  shows "get_me e (Some (Bearer t)) store = internal_error"
proof -
  have "err = Error ''Invalid or expired access token''"
    using assms(1) by (auto simp: verifyAccessToken_def split: sum.splits if_splits)
  with assms show ?thesis
    by (simp add: get_me_def authenticate_def errorHandler_def Error_def opt_prop_def
          internal_error_def Let_def)
qed

text \<open>
  \<^bold>\<open>C3: the code departs from the claim.\<close> \<^verbatim>\<open>GET /me\<close> with a malformed token, with an
  expired access token and with a refresh token in the header: each time
  \<^verbatim>\<open>verifyAccessToken\<close> throws a plain \<^verbatim>\<open>Error\<close>, which has no \<^verbatim>\<open>statusCode\<close> and no
  \<^verbatim>\<open>code\<close> and whose \<^verbatim>\<open>name\<close> is neither \<^verbatim>\<open>JsonWebTokenError\<close> nor
  \<^verbatim>\<open>TokenExpiredError\<close>, so \<^verbatim>\<open>errorHandler\<close> answers 500 with \<^verbatim>\<open>INTERNAL_ERROR\<close>. A
  missing header is answered 401 with \<^verbatim>\<open>AUTHENTICATION_ERROR\<close>.
\<close>

theorem invalid_token_internal_error:
  "get_me demo_env (Some (Bearer (Opaque ''invalid.token.here''))) [alice] = internal_error
   \<and> get_me much_later (Some (Bearer alice_access)) [alice] = internal_error
   \<and> get_me demo_env (Some (Bearer alice_refresh)) [alice] = internal_error
   \<and> get_me demo_env None [alice] =
       \<lparr>status = 401,
        body = VObj [(''success'', VBool False), (''error'', VStr ''No token provided''),
                     (''code'', VStr ''AUTHENTICATION_ERROR'')]\<rparr>"
  by (simp add: get_me_def authenticate_def verifyAccessToken_def jwt_verify_def errorHandler_def
        Error_def AuthenticationError_def AppError_def opt_prop_def code_jsval_def Let_def
        alice_access_def alice_refresh_def generateAccessToken_def generateRefreshToken_def
        jwt_sign_def demo_env_def much_later_def internal_error_def ACCESS_TOKEN_EXPIRY_def
        REFRESH_TOKEN_EXPIRY_def alice_def)

subsection \<open>Failed logins\<close>







subsection \<open>Registration\<close>






subsection \<open>Logout revokes the refresh token\<close>

lemma find_map_replace:
  assumes "find (\<lambda>v. uid v = i) store = Some u" and "uid u' = i"
  shows "find (\<lambda>v. uid v = i) (map (\<lambda>v. if uid v = i then u' else v) store) = Some u'"
  using assms by (induction store) (auto split: if_splits)

lemma authenticate_Inr:
  assumes "authenticate e authHeader store = Inr u"
  shows "findById (uid u) store = Some u \<and> isActive u"
proof -
  from assms obtain t d where d: "verifyAccessToken e (split_token t) = Inr d"
    and f: "findById (userId d) store = Some u" and a: "isActive u"
    by (auto simp: authenticate_def split: option.splits auth_header.splits sum.splits if_splits)
  from f have "uid u = userId d"
    by (auto simp: findById_def find_Some_iff)
  with f a show ?thesis by simp
qed

lemma removeRefreshToken_absent:
  "\<not> list_ex (\<lambda>rt. token rt = t) (refreshTokens (removeRefreshToken t u))"
  by (simp add: removeRefreshToken_def list_ex_iff)

text \<open>
  \<^bold>\<open>C6.\<close> When Logout is called by an authenticated User with a refresh token and the
  write succeeds, the token is removed from that User's \<^verbatim>\<open>refreshTokens\<close>, and a
  Refresh that presents the same token afterwards, at any time, fails with status
  401: with \<^verbatim>\<open>Invalid refresh token\<close> when the token verifies and is that User's (it
  is no longer among the User's \<^verbatim>\<open>refreshTokens\<close>), and with
  \<^verbatim>\<open>Invalid or expired refresh token\<close> when it does not verify.
\<close>

theorem logout_revokes:
  assumes "authenticate e authHeader store = Inr u"
    and "present (Some t)"
    and "saveError e = None"
  shows "logout e authHeader (Some t) store =
           (logged_out, map (\<lambda>v. if uid v = uid u then removeRefreshToken t u else v) store)
         \<and> (case verifyRefreshToken e' t of
               Inl err \<Rightarrow>
                 refresh e' (Some t) (snd (logout e authHeader (Some t) store)) =
                   (failure 401 ''Invalid or expired refresh token'',
                    snd (logout e authHeader (Some t) store))
             | Inr d \<Rightarrow>
                 userId d = uid u \<longrightarrow>
                 refresh e' (Some t) (snd (logout e authHeader (Some t) store)) =
                   (failure 401 ''Invalid refresh token'',
                    snd (logout e authHeader (Some t) store)))"
proof -
  let ?u' = "removeRefreshToken t u"
  let ?store' = "map (\<lambda>v. if uid v = uid u then ?u' else v) store"
  have out: "logout e authHeader (Some t) store = (logged_out, ?store')"
    using assms by (simp add: logout_def save_def removeRefreshToken_def)
  from authenticate_Inr [OF assms(1)]
  have found: "find (\<lambda>v. uid v = uid u) store = Some u" and active: "isActive u"
    by (simp_all add: findById_def)
  have "uid ?u' = uid u" by (simp add: removeRefreshToken_def)
  from find_map_replace [OF found this]
  have found': "findById (uid u) ?store' = Some ?u'" by (simp add: findById_def)
  have active': "isActive ?u'" using active by (simp add: removeRefreshToken_def)
  have "refresh e' (Some t) ?store' =
          (failure 401 ''Invalid or expired refresh token'', ?store')"
    if "verifyRefreshToken e' t = Inl err" for err
    using that assms(2) by (simp add: refresh_def)
  moreover have "refresh e' (Some t) ?store' = (failure 401 ''Invalid refresh token'', ?store')"
    if "verifyRefreshToken e' t = Inr d" and "userId d = uid u" for d
    using that assms(2) found' active' removeRefreshToken_absent [of t u]
    by (simp add: refresh_def)
  ultimately show ?thesis
    using out by (simp split: sum.splits)
qed

theorem logout_revokes_witness:
  "authenticate demo_env (Some (Bearer alice_access)) [alice] = Inr alice
   \<and> present (Some alice_refresh)
   \<and> saveError demo_env = None
   \<and> list_ex (\<lambda>rt. token rt = alice_refresh) (refreshTokens alice)
   \<and> status (fst (refresh later (Some alice_refresh) [alice])) = 200
   \<and> logout demo_env (Some (Bearer alice_access)) (Some alice_refresh) [alice]
       = (logged_out, [alice\<lparr>refreshTokens := []\<rparr>])
   \<and> refresh later (Some alice_refresh) [alice\<lparr>refreshTokens := []\<rparr>]
       = (failure 401 ''Invalid refresh token'', [alice\<lparr>refreshTokens := []\<rparr>])"
proof -
  have a: "authenticate demo_env (Some (Bearer alice_access)) [alice] = Inr alice"
    by (simp add: authenticate_def verifyAccessToken_def jwt_verify_def alice_access_def
          generateAccessToken_def jwt_sign_def findById_def changedPasswordAfter_def
          ACCESS_TOKEN_EXPIRY_def demo_env_def, simp add: alice_def)
  have b: "present (Some alice_refresh)"
    by (simp add: present_def alice_refresh_def generateRefreshToken_def jwt_sign_def)
  have c: "saveError demo_env = None" by (simp add: demo_env_def)
  have d: "verifyRefreshToken later alice_refresh =
             Inr \<lparr>userId = uid alice, p_role = None, p_type = ''refresh'',
                  iat = 1700000000, exp = 1700604800\<rparr>"
    by (simp add: verifyRefreshToken_def jwt_verify_def alice_refresh_def
          generateRefreshToken_def jwt_sign_def REFRESH_TOKEN_EXPIRY_def later_def demo_env_def)
  have f: "removeRefreshToken alice_refresh alice = alice\<lparr>refreshTokens := []\<rparr>"
    by (simp add: removeRefreshToken_def alice_def alice_refresh_def)
  have g: "list_ex (\<lambda>rt. token rt = alice_refresh) (refreshTokens alice)"
    by (simp add: alice_def alice_refresh_def)
  have h: "status (fst (refresh later (Some alice_refresh) [alice])) = 200"
    using b g by (simp add: refresh_def d findById_def save_def)
                 (simp add: alice_def later_def demo_env_def)
  note revoked = logout_revokes [OF a b c, of later]
  have out: "logout demo_env (Some (Bearer alice_access)) (Some alice_refresh) [alice]
               = (logged_out, [alice\<lparr>refreshTokens := []\<rparr>])"
    using revoked [THEN conjunct1] f by simp
  have "refresh later (Some alice_refresh)
          (snd (logout demo_env (Some (Bearer alice_access)) (Some alice_refresh) [alice]))
        = (failure 401 ''Invalid refresh token'',
           snd (logout demo_env (Some (Bearer alice_access)) (Some alice_refresh) [alice]))"
    using revoked [THEN conjunct2] d by simp
  then have "refresh later (Some alice_refresh) [alice\<lparr>refreshTokens := []\<rparr>]
               = (failure 401 ''Invalid refresh token'', [alice\<lparr>refreshTokens := []\<rparr>])"
    by (simp add: out)
  with a b c g h out show ?thesis by simp
qed

subsection \<open>Linking a GitHub identity\<close>

text \<open>
  When an entry of the provider exists, \<^verbatim>\<open>linkOAuthProvider\<close> writes none of the three
  provider id fields.
\<close>

lemma relink_keeps_id_fields:
  assumes "find (\<lambda>p. provider p = prov) (oauthProviders u) = Some existingProvider"
  shows "googleId (linkOAuthProvider clock prov profile u) = googleId u
         \<and> githubId (linkOAuthProvider clock prov profile u) = githubId u
         \<and> appleId (linkOAuthProvider clock prov profile u) = appleId u"
  using assms by (simp add: linkOAuthProvider_def Let_def)

text \<open>
  \<^bold>\<open>C8: the code departs from the claim.\<close> Alice has a password and a linked GitHub
  identity 41. The callback for GitHub identity 42 with Alice's email finds no User
  by the id and finds Alice by the email; no second User is created, her
  \<^verbatim>\<open>oauthProviders\<close> entry of GitHub now holds 42, but her \<^verbatim>\<open>githubId\<close> is still 41:
  \<^verbatim>\<open>linkOAuthProvider\<close> sets the id field only when it adds an entry. A lookup by
  GitHub id 42 still finds nobody. The last conjunct is the same callback for Alice
  without a prior link, where the id field is set.
\<close>

theorem relink_keeps_stale_id:
  "findOneByGithubId ''42'' [alice_linked] = None
   \<and> findOneByEmail ''alice@example.com'' [alice_linked] = Some alice_linked
   \<and> github_verify demo_env github_42 [alice_linked] = (Inr relinked, [relinked])
   \<and> map providerId (oauthProviders relinked) = [''42'']
   \<and> githubId relinked = Some ''41''
   \<and> findOneByGithubId ''42'' [relinked] = None
   \<and> map githubId (snd (github_verify demo_env github_42 [alice])) = [Some ''42'']"
  by (simp add: github_verify_def findOneByGithubId_def findOneByEmail_def first_photo_def
        linkOAuthProvider_def touch_lastLogin_def save_def set_provider_id_def truthy_def Let_def
        github_42_def alice_linked_def relinked_def github_entry_def alice_def demo_env_def)

end
